theory Spec2Isabelle
  imports Main
begin

section \<open>Data model\<close>

text \<open>
  The backend is untyped at its edges (\<^verbatim>\<open>req: any\<close>, \<^verbatim>\<open>user?: any\<close>, \<^verbatim>\<open>req.body\<close>), so
  the values that travel through it are JSON-like. \<open>JObj\<close> is an object literal with its
  keys in source order; \<^verbatim>\<open>{}\<close> is \<open>JObj []\<close>.
\<close>

datatype json =
    JNull
  | JNum int
  | JStr string
  | JArr "json list"
  | JObj "(string \<times> json) list"

text \<open>
  The part of an Express request that the middleware and the controllers read or write:
  \<^item> \<open>url\<close> is \<^verbatim>\<open>req.url\<close>;
  \<^item> \<open>authorization\<close> is \<^verbatim>\<open>req.header('Authorization')\<close>, \<open>None\<close> for \<^verbatim>\<open>undefined\<close>;
  \<^item> \<open>origin\<close> is \<^verbatim>\<open>req.get('origin')\<close>, \<open>None\<close> for \<^verbatim>\<open>undefined\<close>;
  \<^item> \<open>body\<close> is the parsed body object \<^verbatim>\<open>req.body\<close>, \<open>params\<close> is \<^verbatim>\<open>req.params\<close>;
  \<^item> \<open>validationErrors\<close> is what \<^verbatim>\<open>validationResult(req)\<close> collects from the
    route-level validators that ran before the handler;
  \<^item> \<open>user\<close> is \<^verbatim>\<open>req.user\<close>, \<open>None\<close> for \<^verbatim>\<open>undefined\<close>.
\<close>

record request =
  url :: string
  authorization :: "string option"
  origin :: "string option"
  body :: "(string \<times> json) list"
  params :: "(string \<times> string) list"
  validationErrors :: "json list"
  user :: "json option"

text \<open>The envelope that \<^verbatim>\<open>sendResponse(res, status, data, message)\<close> sends.\<close>

record response =
  status :: nat
  data :: json
  message :: json

text \<open>The argument object of the service-layer \<^verbatim>\<open>create({ originalUrl, baseURL, userId })\<close>.\<close>

record create_args =
  originalUrl :: "json option"
  baseURL :: "string option"
  userId :: string

text \<open>
  What a handler does to the outside, in the order it does it: a call of the Token Codec
  with its argument, \<^verbatim>\<open>next()\<close>, a response sent on \<^verbatim>\<open>res\<close>, a \<^verbatim>\<open>console.log\<close> with its
  arguments (\<open>None\<close> for \<^verbatim>\<open>undefined\<close>), and the two service-layer calls with their
  arguments.
\<close>

datatype event =
    CodecCall string
  | Next
  | Send response
  | ConsoleLog "json option list"
  | ServiceCreate create_args
  | ServiceGet "string option"

text \<open>
  A value thrown by the Token Codec. The middleware only reads \<^verbatim>\<open>err?.['name']\<close>, which is
  \<open>None\<close> when the thrown value has no such property.
\<close>

record js_error =
  name :: "string option"
  errMessage :: string

section \<open>Response formatter\<close>

text \<open>
  Modelled from the spec: \<^verbatim>\<open>utils/sendResponse\<close> is not among the sources. The spec's
  Response Formatter builds one envelope \<open>{status, data, message}\<close> for every response.
\<close>

definition sendResponse :: "nat \<Rightarrow> json \<Rightarrow> json \<Rightarrow> event" where
  "sendResponse st d m = Send \<lparr>status = st, data = d, message = m\<rparr>"

text \<open>
  \<^verbatim>\<open>HttpStatusCode.Unauthorized\<close>, from the compiled enumeration:
  \<^verbatim>\<open>HttpStatusCode[HttpStatusCode["Unauthorized"] = 401] = "Unauthorized"\<close>.
\<close>

definition Unauthorized :: nat where
  "Unauthorized = 401"

section \<open>Auth middleware (middlewares/authenticated.ts)\<close>

definition whiteListEndpoints :: "string list" where
  "whiteListEndpoints = [''/urls/short'']"

text \<open>
  The path of a request, as Express gives it in \<^verbatim>\<open>req.path\<close>: \<^verbatim>\<open>req.url\<close> up to the query
  string. The middleware does not read it; it compares \<^verbatim>\<open>req.url\<close> itself.
\<close>

definition pathOf :: "string \<Rightarrow> string" where
  "pathOf u = takeWhile (\<lambda>c. c \<noteq> CHR ''?'') u"

text \<open>
  \<^verbatim>\<open>isAuthenticated(req, res, next)\<close>. The Token Codec \<^verbatim>\<open>decryptAccessToken\<close> lives in
  \<^verbatim>\<open>utils\<close>, which is not among the sources, so it is a parameter: it returns the decoded
  claims (\<open>Inr\<close>) or throws (\<open>Inl\<close>). The result is the request as the middleware leaves
  it and the events in order. \<^verbatim>\<open>!token\<close> holds for \<^verbatim>\<open>undefined\<close> and for the empty string.
  The \<^verbatim>\<open>catch\<close> block has three \<^verbatim>\<open>if\<close>s and no final branch: any other thrown value falls
  through to \<^verbatim>\<open>return 0\<close>. The returned value itself is dropped by Express and is not
  modelled.
\<close>

definition isAuthenticated ::
  "(string \<Rightarrow> js_error + json) \<Rightarrow> request \<Rightarrow> request \<times> event list" where
  "isAuthenticated decryptAccessToken req =
     (let token = authorization req in
      if token = None \<or> token = Some [] then
        (if url req \<in> set whiteListEndpoints then (req, [Next])
         else (req, [sendResponse Unauthorized (JObj [(''tokenExpired'', JNum 0)])
                       (JStr ''Failed to Authenticate'')]))
      else
        (case decryptAccessToken (the token) of
           Inr decoded \<Rightarrow> (req\<lparr>user := Some decoded\<rparr>, [CodecCall (the token), Next])
         | Inl err \<Rightarrow>
             (req, CodecCall (the token) #
               (if name err = Some ''TokenExpiredError'' then
                  [sendResponse Unauthorized (JObj [(''tokenExpired'', JNum 1)])
                     (JStr ''Token Expired'')]
                else if name err = Some ''JsonWebTokenError'' then
                  [sendResponse Unauthorized (JObj [(''tokenExpired'', JNum 0)])
                     (JStr ''Corrupt Token'')]
                else if name err = Some ''validationError'' then
                  [sendResponse Unauthorized (JObj [(''tokenExpired'', JNum 0)])
                     (JStr ''validationError'')]
                else []))))"

section \<open>Error classifier\<close>

text \<open>Modelled from the spec: the error taxonomy of its section 7.\<close>

datatype error_kind =
    Unauthenticated
  | MalformedToken
  | ExpiredToken
  | InvalidUrl
  | NotFound
  | ValidationFailed
  | Internal

text \<open>
  Modelled from the spec: a value thrown by the service layer, with its kind and its
  human-readable text.
\<close>

record service_error =
  kind :: error_kind
  reason :: string

text \<open>
  Modelled from the spec: the fixed mapping of the Error Classifier from the error kind to
  the status code (\<open>InvalidUrl\<close> to 422, \<open>NotFound\<close> to 404, \<open>Unauthenticated\<close> to 401,
  anything else to 500).
\<close>

fun statusOf :: "error_kind \<Rightarrow> nat" where
  "statusOf InvalidUrl = 422"
| "statusOf NotFound = 404"
| "statusOf Unauthenticated = 401"
| "statusOf _ = 500"

text \<open>
  Modelled from the spec: \<^verbatim>\<open>utils/handleCustomErrors\<close> is not among the sources. The spec's
  Error Classifier maps a caught error to its status code and sends the envelope with the
  error's message.
\<close>

definition handleCustomError :: "service_error \<Rightarrow> event" where
  "handleCustomError err = sendResponse (statusOf (kind err)) (JObj []) (JStr (reason err))"

section \<open>URL controllers (modules/urls/controller.ts)\<close>

text \<open>
  The three handlers. What they import and the sources do not hold is a parameter: the
  service-layer operations \<^verbatim>\<open>create\<close> and \<^verbatim>\<open>get\<close> (each takes the persistent state \<open>'db\<close>
  and returns its result, \<open>Inl\<close> for a thrown error, with the state it leaves),
  \<^verbatim>\<open>extractErrors\<close>, and the constant \<^verbatim>\<open>reponseMessages.genericSuccess\<close>. A handler returns
  the state it leaves and its events in order. A property missing from \<^verbatim>\<open>req.body\<close> or
  \<^verbatim>\<open>req.params\<close> destructures to \<^verbatim>\<open>undefined\<close>, here \<open>None\<close>.
\<close>

definition createShortUrl ::
  "(create_args \<Rightarrow> 'db \<Rightarrow> (service_error + json) \<times> 'db) \<Rightarrow> (json list \<Rightarrow> json) \<Rightarrow> json \<Rightarrow>
     request \<Rightarrow> 'db \<Rightarrow> 'db \<times> event list" where
  "createShortUrl create extractErrors genericSuccess req db =
     (let errors = validationErrors req in
      if errors \<noteq> [] then
        (let extractedErrors = extractErrors errors in
         (db, [sendResponse 422 (JObj []) (JObj [(''errors'', extractedErrors)])]))
      else
        (let args = \<lparr>originalUrl = map_of (body req) ''originalUrl'',
                     baseURL = origin req,
                     userId = []\<rparr>;
             logged = ConsoleLog [Some (JStr ''user''), user req] in
         case create args db of
           (Inr data', db') \<Rightarrow>
             (db', [logged, ServiceCreate args, sendResponse 201 data' genericSuccess])
         | (Inl err, db') \<Rightarrow>
             (db', [logged, ServiceCreate args, handleCustomError err])))"

definition getShortUrl ::
  "(string option \<Rightarrow> 'db \<Rightarrow> (service_error + json) \<times> 'db) \<Rightarrow> (json list \<Rightarrow> json) \<Rightarrow> json \<Rightarrow>
     request \<Rightarrow> 'db \<Rightarrow> 'db \<times> event list" where
  "getShortUrl get extractErrors genericSuccess req db =
     (let errors = validationErrors req in
      if errors \<noteq> [] then
        (let extractedErrors = extractErrors errors in
         (db, [sendResponse 422 (JObj []) (JObj [(''errors'', extractedErrors)])]))
      else
        (let urlId = map_of (params req) ''urlId'' in
         case get urlId db of
           (Inr originalUrl', db') \<Rightarrow>
             (db', [ServiceGet urlId,
                    sendResponse 201 (JObj [(''originalUrl'', originalUrl')]) genericSuccess])
         | (Inl err, db') \<Rightarrow>
             (db', [ServiceGet urlId, handleCustomError err])))"

definition getAllShortUrlsByUser ::
  "(string option \<Rightarrow> 'db \<Rightarrow> (service_error + json) \<times> 'db) \<Rightarrow> (json list \<Rightarrow> json) \<Rightarrow> json \<Rightarrow>
     request \<Rightarrow> 'db \<Rightarrow> 'db \<times> event list" where
  "getAllShortUrlsByUser get extractErrors genericSuccess req db =
     (let errors = validationErrors req in
      if errors \<noteq> [] then
        (let extractedErrors = extractErrors errors in
         (db, [sendResponse 422 (JObj []) (JObj [(''errors'', extractedErrors)])]))
      else
        (let urlId = map_of (params req) ''urlId'' in
         case get urlId db of
           (Inr originalUrl', db') \<Rightarrow>
             (db', [ServiceGet urlId,
                    sendResponse 201 (JObj [(''originalUrl'', originalUrl')]) genericSuccess])
         | (Inl err, db') \<Rightarrow>
             (db', [ServiceGet urlId, handleCustomError err])))"

section \<open>URL service\<close>

text \<open>
  Modelled from the spec: a persisted \<open>ShortUrlMapping\<close>. Of the spec's fields, \<open>id\<close> and
  \<open>createdAt\<close> are assigned by the persistence layer and read by neither operation;
  \<open>storedUrl\<close> is the spec's \<open>originalUrl\<close> of a mapping.
\<close>

record short_url_mapping =
  shortCode :: string
  storedUrl :: string
  ownerUserId :: "string option"

text \<open>
  Modelled from the spec: \<^verbatim>\<open>modules/urls/services.ts\<close> is not among the sources. The code
  generator is a source of candidate codes, given as the list of its draws;
  \<open>generateCode\<close> regenerates until no existing mapping holds the code, and has no code
  to give when the draws run out.
\<close>

fun generateCode :: "short_url_mapping list \<Rightarrow> string list \<Rightarrow> string option" where
  "generateCode store [] = None"
| "generateCode store (c # cs) =
     (if c \<in> set (map shortCode store) then generateCode store cs else Some c)"

text \<open>
  Modelled from the spec: \<open>create\<close> fails with \<open>InvalidUrl\<close> if \<open>originalUrl\<close> does not
  parse as an absolute URL (the parser is the parameter \<open>isValidUrl\<close>; a value that is not
  a string does not parse); otherwise it generates a short code, persists a new mapping
  and returns \<open>{shortUrl}\<close>, the base URL joined to the code as in the spec's scenario
  (\<^verbatim>\<open>https://short.ly/<code>\<close>). A missing base URL prints as \<^verbatim>\<open>undefined\<close>.
\<close>

definition create ::
  "(string \<Rightarrow> bool) \<Rightarrow> string list \<Rightarrow> create_args \<Rightarrow> short_url_mapping list \<Rightarrow>
     (service_error + json) \<times> short_url_mapping list" where
  "create isValidUrl draws args store =
     (case originalUrl args of
        Some (JStr u) \<Rightarrow>
          if isValidUrl u then
            (case generateCode store draws of
               Some c \<Rightarrow>
                 (Inr (JObj [(''shortUrl'',
                         JStr ((case baseURL args of None \<Rightarrow> ''undefined'' | Some b \<Rightarrow> b)
                               @ ''/'' @ c))]),
                  store @ [\<lparr>shortCode = c, storedUrl = u, ownerUserId = Some (userId args)\<rparr>])
             | None \<Rightarrow>
                 (Inl \<lparr>kind = Internal, reason = ''no short code available''\<rparr>, store))
          else (Inl \<lparr>kind = InvalidUrl, reason = ''Invalid Original Url''\<rparr>, store)
      | _ \<Rightarrow> (Inl \<lparr>kind = InvalidUrl, reason = ''Invalid Original Url''\<rparr>, store))"

text \<open>
  Modelled from the spec: \<open>get\<close> fails with \<open>NotFound\<close> if no mapping exists for the code,
  otherwise returns the stored original URL; the store is left as it is.
\<close>

definition get ::
  "string option \<Rightarrow> short_url_mapping list \<Rightarrow> (service_error + json) \<times> short_url_mapping list" where
  "get code store =
     (case find (\<lambda>m. Some (shortCode m) = code) store of
        None \<Rightarrow> (Inl \<lparr>kind = NotFound, reason = ''Url not found''\<rparr>, store)
      | Some m \<Rightarrow> (Inr (JStr (storedUrl m)), store))"

section \<open>Concrete inputs\<close>

text \<open>
  A Token Codec for the examples: it accepts one token, rejects one as expired, rejects
  one with the third error class of the JWT library (\<^verbatim>\<open>NotBeforeError\<close>), and rejects
  everything else as malformed.
\<close>

definition sampleClaims :: json where
  "sampleClaims = JObj [(''email'', JStr ''a@b.com''), (''tokenType'', JStr ''access'')]"

definition sampleCodec :: "string \<Rightarrow> js_error + json" where
  "sampleCodec t =
     (if t = ''good.jwt.token'' then Inr sampleClaims
      else if t = ''old.jwt.token'' then
        Inl \<lparr>name = Some ''TokenExpiredError'', errMessage = ''jwt expired''\<rparr>
      else if t = ''early.jwt.token'' then
        Inl \<lparr>name = Some ''NotBeforeError'', errMessage = ''jwt not active''\<rparr>
      else Inl \<lparr>name = Some ''JsonWebTokenError'', errMessage = ''jwt malformed''\<rparr>)"

definition sampleRequest :: "string \<Rightarrow> string option \<Rightarrow> request" where
  "sampleRequest u a =
     \<lparr>url = u, authorization = a, origin = Some ''https://short.ly'',
      body = [(''originalUrl'', JStr ''https://example.com/a/b'')],
      params = [(''urlId'', ''abc123'')], validationErrors = [], user = None\<rparr>"

text \<open>
  For the controllers: a validator that accepts the two web schemes, \<^verbatim>\<open>extractErrors\<close> as
  the array of the errors, a success message, a failing validation result, and a store
  that already holds one mapping.
\<close>

definition sampleIsValidUrl :: "string \<Rightarrow> bool" where
  "sampleIsValidUrl u = (take 7 u = ''http://'' \<or> take 8 u = ''https://'')"

definition sampleExtractErrors :: "json list \<Rightarrow> json" where
  "sampleExtractErrors errs = JArr errs"

definition sampleSuccess :: json where
  "sampleSuccess = JStr ''Success''"

definition sampleInvalid :: "json list" where
  "sampleInvalid = [JObj [(''originalUrl'', JStr ''Invalid value'')]]"

definition sampleStore :: "short_url_mapping list" where
  "sampleStore = [\<lparr>shortCode = ''abc123'', storedUrl = ''https://example.com/a/b'',
                   ownerUserId = Some ''''\<rparr>]"

section \<open>Properties of the auth middleware\<close>

lemmas mw_defs = isAuthenticated_def sendResponse_def Unauthorized_def

lemmas sample_defs = sampleRequest_def sampleCodec_def sampleClaims_def whiteListEndpoints_def

text \<open>
  C3, as claimed, fails for a request whose path is exempt and whose URL carries a query
  string: the middleware looks \<^verbatim>\<open>req.url\<close> up in the exemption list, query string and all,
  so without an Authorization header \<^verbatim>\<open>/urls/short?x=1\<close> gets the 401 and \<^verbatim>\<open>next()\<close> is not
  called.
\<close>

theorem isAuthenticated_exempt_path_with_query:
  "authorization (sampleRequest ''/urls/short?x=1'' None) = None
   \<and> pathOf (url (sampleRequest ''/urls/short?x=1'' None)) \<in> set whiteListEndpoints
   \<and> isAuthenticated sampleCodec (sampleRequest ''/urls/short?x=1'' None) =
       (sampleRequest ''/urls/short?x=1'' None,
        [Send \<lparr>status = 401, data = JObj [(''tokenExpired'', JNum 0)],
               message = JStr ''Failed to Authenticate''\<rparr>])"
  by (simp add: mw_defs sample_defs pathOf_def)

text \<open>
  C3, amended. A request without an Authorization header whose \<^verbatim>\<open>req.url\<close>, the path
  together with any query string, is an entry of the exemption list is passed on with
  \<^verbatim>\<open>next()\<close> and the Token Codec is not called (the only event is \<open>Next\<close>, the request is
  unchanged); a request without the header whose \<^verbatim>\<open>req.url\<close> is not an entry of the list,
  also when its path alone is one, gets the single response 401 "Failed to Authenticate".
\<close>

theorem isAuthenticated_no_header:
  assumes "authorization req = None"
  shows "(url req \<in> set whiteListEndpoints \<longrightarrow>
            isAuthenticated decryptAccessToken req = (req, [Next]))
       \<and> (url req \<notin> set whiteListEndpoints \<longrightarrow>
            isAuthenticated decryptAccessToken req =
              (req, [Send \<lparr>status = 401, data = JObj [(''tokenExpired'', JNum 0)],
                          message = JStr ''Failed to Authenticate''\<rparr>]))"
  using assms by (simp add: mw_defs)

theorem isAuthenticated_no_header_witness:
  "isAuthenticated sampleCodec (sampleRequest ''/urls/short'' None) =
     (sampleRequest ''/urls/short'' None, [Next])
   \<and> isAuthenticated sampleCodec (sampleRequest ''/urls/abc123'' None) =
     (sampleRequest ''/urls/abc123'' None,
      [Send \<lparr>status = 401, data = JObj [(''tokenExpired'', JNum 0)],
             message = JStr ''Failed to Authenticate''\<rparr>])"
  using isAuthenticated_no_header [of "sampleRequest ''/urls/short'' None" sampleCodec]
    isAuthenticated_no_header [of "sampleRequest ''/urls/abc123'' None" sampleCodec]
  by (simp add: sampleRequest_def whiteListEndpoints_def)

text \<open>
  Whatever a non-empty header value looks like, the middleware starts by calling the Token
  Codec on the whole value: nothing is stripped from it and nothing is tested before.
\<close>

lemma isAuthenticated_calls_codec:
  assumes "authorization req = Some t" and "t \<noteq> []"
  shows "\<exists>req' es. isAuthenticated decryptAccessToken req = (req', CodecCall t # es)"
  using assms by (cases "decryptAccessToken t") (simp_all add: mw_defs)

text \<open>
  C1. The claim asks for a 401 without a Token Codec call whenever the header lacks the
  \<^verbatim>\<open>Bearer \<close> prefix. The middleware has no prefix test: it hands the whole header value to
  \<^verbatim>\<open>decryptAccessToken\<close>. Here a request to a non-exempt URL carries a bare token that the
  codec accepts: the codec is called on it, the claims are attached and \<^verbatim>\<open>next()\<close> runs,
  with no 401. A bare value that the codec rejects gets its 401 only after the codec call.
\<close>

theorem isAuthenticated_bare_token_reaches_codec:
  "take 7 ''good.jwt.token'' \<noteq> ''Bearer ''
   \<and> url (sampleRequest ''/urls/abc123'' (Some ''good.jwt.token'')) \<notin> set whiteListEndpoints
   \<and> isAuthenticated sampleCodec (sampleRequest ''/urls/abc123'' (Some ''good.jwt.token'')) =
       ((sampleRequest ''/urls/abc123'' (Some ''good.jwt.token''))\<lparr>user := Some sampleClaims\<rparr>,
        [CodecCall ''good.jwt.token'', Next])
   \<and> isAuthenticated sampleCodec (sampleRequest ''/urls/abc123'' (Some ''Basic dXNlcg=='')) =
       (sampleRequest ''/urls/abc123'' (Some ''Basic dXNlcg==''),
        [CodecCall ''Basic dXNlcg=='',
         Send \<lparr>status = 401, data = JObj [(''tokenExpired'', JNum 0)],
               message = JStr ''Corrupt Token''\<rparr>])"
  by (simp add: mw_defs sample_defs)

text \<open>
  C4. The claim asks for a response on every error path. The \<^verbatim>\<open>catch\<close> block of the
  middleware answers three error names and has no final branch: a token that the codec
  rejects with any other error (here \<^verbatim>\<open>NotBeforeError\<close>) leaves the request with the codec
  call as its only event: no response is sent and \<^verbatim>\<open>next()\<close> is not called.
\<close>

theorem isAuthenticated_unnamed_error_no_response:
  "isAuthenticated sampleCodec (sampleRequest ''/urls/abc123'' (Some ''early.jwt.token'')) =
     (sampleRequest ''/urls/abc123'' (Some ''early.jwt.token''), [CodecCall ''early.jwt.token''])"
  by (simp add: mw_defs sample_defs)

text \<open>The three cases of a rejected token that the middleware does answer, and what it sends.\<close>

lemma isAuthenticated_expired:
  assumes "authorization req = Some t" and "t \<noteq> []" and "decryptAccessToken t = Inl err"
    and "name err = Some ''TokenExpiredError''"
  shows "isAuthenticated decryptAccessToken req =
     (req, [CodecCall t, Send \<lparr>status = 401, data = JObj [(''tokenExpired'', JNum 1)],
                                 message = JStr ''Token Expired''\<rparr>])"
  using assms by (simp add: mw_defs)

lemma isAuthenticated_malformed:
  assumes "authorization req = Some t" and "t \<noteq> []" and "decryptAccessToken t = Inl err"
    and "name err = Some ''JsonWebTokenError''"
  shows "isAuthenticated decryptAccessToken req =
     (req, [CodecCall t, Send \<lparr>status = 401, data = JObj [(''tokenExpired'', JNum 0)],
                                 message = JStr ''Corrupt Token''\<rparr>])"
  using assms by (simp add: mw_defs)

lemma isAuthenticated_sent:
  assumes "Send r \<in> set (snd (isAuthenticated decryptAccessToken req))"
  shows "status r = 401
     \<and> (data r = JObj [(''tokenExpired'', JNum 1)] \<longleftrightarrow>
          (\<exists>t err. authorization req = Some t \<and> t \<noteq> [] \<and> decryptAccessToken t = Inl err
             \<and> name err = Some ''TokenExpiredError''))
     \<and> (data r \<noteq> JObj [(''tokenExpired'', JNum 1)] \<longrightarrow>
          data r = JObj [(''tokenExpired'', JNum 0)])"
  using assms
  by (auto simp: mw_defs Let_def split: if_splits sum.splits)

text \<open>
  C5. A request carrying a token (a non-empty header value) that the Token Codec rejects
  as expired gets 401 with \<open>tokenExpired: 1\<close>; one whose token is rejected as malformed
  gets 401 with \<open>tokenExpired: 0\<close>. This holds for exempt and non-exempt URLs alike. Every
  response the middleware sends is a 401, and it carries \<open>tokenExpired: 1\<close> exactly when
  the codec rejected the token as expired, \<open>tokenExpired: 0\<close> otherwise: the flag tells
  the expired case from every other 401.
\<close>

theorem isAuthenticated_expired_flag:
  "(authorization req = Some t \<and> t \<noteq> [] \<and> decryptAccessToken t = Inl err \<longrightarrow>
      (name err = Some ''TokenExpiredError'' \<longrightarrow>
         isAuthenticated decryptAccessToken req =
           (req, [CodecCall t, Send \<lparr>status = 401, data = JObj [(''tokenExpired'', JNum 1)],
                                       message = JStr ''Token Expired''\<rparr>]))
    \<and> (name err = Some ''JsonWebTokenError'' \<longrightarrow>
         isAuthenticated decryptAccessToken req =
           (req, [CodecCall t, Send \<lparr>status = 401, data = JObj [(''tokenExpired'', JNum 0)],
                                       message = JStr ''Corrupt Token''\<rparr>])))
   \<and> (\<forall>r. Send r \<in> set (snd (isAuthenticated decryptAccessToken req)) \<longrightarrow>
          status r = 401
        \<and> (data r = JObj [(''tokenExpired'', JNum 1)] \<longleftrightarrow>
             (\<exists>t' err'. authorization req = Some t' \<and> t' \<noteq> [] \<and> decryptAccessToken t' = Inl err'
                \<and> name err' = Some ''TokenExpiredError''))
        \<and> (data r \<noteq> JObj [(''tokenExpired'', JNum 1)] \<longrightarrow>
             data r = JObj [(''tokenExpired'', JNum 0)]))"
  using isAuthenticated_expired [of req t decryptAccessToken err]
    isAuthenticated_malformed [of req t decryptAccessToken err]
    isAuthenticated_sent [of _ decryptAccessToken req]
  by blast

theorem isAuthenticated_expired_flag_witness:
  "isAuthenticated sampleCodec (sampleRequest ''/urls/abc123'' (Some ''old.jwt.token'')) =
     (sampleRequest ''/urls/abc123'' (Some ''old.jwt.token''),
      [CodecCall ''old.jwt.token'',
       Send \<lparr>status = 401, data = JObj [(''tokenExpired'', JNum 1)],
             message = JStr ''Token Expired''\<rparr>])
   \<and> isAuthenticated sampleCodec (sampleRequest ''/urls/abc123'' (Some ''not.a.token'')) =
     (sampleRequest ''/urls/abc123'' (Some ''not.a.token''),
      [CodecCall ''not.a.token'',
       Send \<lparr>status = 401, data = JObj [(''tokenExpired'', JNum 0)],
             message = JStr ''Corrupt Token''\<rparr>])"
proof -
  have old: "authorization (sampleRequest ''/urls/abc123'' (Some ''old.jwt.token'')) =
               Some ''old.jwt.token'' \<and> ''old.jwt.token'' \<noteq> []
             \<and> sampleCodec ''old.jwt.token'' =
               Inl \<lparr>name = Some ''TokenExpiredError'', errMessage = ''jwt expired''\<rparr>"
    by (simp add: sampleRequest_def sampleCodec_def)
  have bad: "authorization (sampleRequest ''/urls/abc123'' (Some ''not.a.token'')) =
               Some ''not.a.token'' \<and> ''not.a.token'' \<noteq> []
             \<and> sampleCodec ''not.a.token'' =
               Inl \<lparr>name = Some ''JsonWebTokenError'', errMessage = ''jwt malformed''\<rparr>"
    by (simp add: sampleRequest_def sampleCodec_def)
  have n1: "name \<lparr>name = Some ''TokenExpiredError'', errMessage = ''jwt expired''\<rparr> =
              Some ''TokenExpiredError''"
    by simp
  have n2: "name \<lparr>name = Some ''JsonWebTokenError'', errMessage = ''jwt malformed''\<rparr> =
              Some ''JsonWebTokenError''"
    by simp
  from isAuthenticated_expired_flag
    [of "sampleRequest ''/urls/abc123'' (Some ''old.jwt.token'')" "''old.jwt.token''" sampleCodec
        "\<lparr>name = Some ''TokenExpiredError'', errMessage = ''jwt expired''\<rparr>"] old n1
  have a: "isAuthenticated sampleCodec (sampleRequest ''/urls/abc123'' (Some ''old.jwt.token'')) =
     (sampleRequest ''/urls/abc123'' (Some ''old.jwt.token''),
      [CodecCall ''old.jwt.token'',
       Send \<lparr>status = 401, data = JObj [(''tokenExpired'', JNum 1)],
             message = JStr ''Token Expired''\<rparr>])"
    by blast
  from isAuthenticated_expired_flag
    [of "sampleRequest ''/urls/abc123'' (Some ''not.a.token'')" "''not.a.token''" sampleCodec
        "\<lparr>name = Some ''JsonWebTokenError'', errMessage = ''jwt malformed''\<rparr>"] bad n2
  have b: "isAuthenticated sampleCodec (sampleRequest ''/urls/abc123'' (Some ''not.a.token'')) =
     (sampleRequest ''/urls/abc123'' (Some ''not.a.token''),
      [CodecCall ''not.a.token'',
       Send \<lparr>status = 401, data = JObj [(''tokenExpired'', JNum 0)],
             message = JStr ''Corrupt Token''\<rparr>])"
    by blast
  from a b show ?thesis by (rule conjI)
qed

text \<open>
  C7. When the Token Codec accepts the token, the middleware leaves the request with
  \<^verbatim>\<open>req.user\<close> set to the decoded claims and every other field as it was, calls the codec
  once and then \<^verbatim>\<open>next()\<close>, and sends nothing.
\<close>

theorem isAuthenticated_success:
  assumes "authorization req = Some t" and "t \<noteq> []" and "decryptAccessToken t = Inr claims"
  shows "isAuthenticated decryptAccessToken req =
           (req\<lparr>user := Some claims\<rparr>, [CodecCall t, Next])"
  using assms by (simp add: mw_defs)

theorem isAuthenticated_success_witness:
  "isAuthenticated sampleCodec (sampleRequest ''/urls/abc123'' (Some ''good.jwt.token'')) =
     (\<lparr>url = ''/urls/abc123'', authorization = Some ''good.jwt.token'',
       origin = Some ''https://short.ly'',
       body = [(''originalUrl'', JStr ''https://example.com/a/b'')],
       params = [(''urlId'', ''abc123'')], validationErrors = [],
       user = Some sampleClaims\<rparr>,
      [CodecCall ''good.jwt.token'', Next])"
  using isAuthenticated_success
    [of "sampleRequest ''/urls/abc123'' (Some ''good.jwt.token'')" "''good.jwt.token''"
        sampleCodec sampleClaims]
  by (simp add: sampleRequest_def sampleCodec_def)




section \<open>Properties of the URL controllers\<close>

lemmas ctl_defs = createShortUrl_def getShortUrl_def getAllShortUrlsByUser_def
  sendResponse_def handleCustomError_def

text \<open>
  C6. When the validation result of the request is not empty, each handler sends the
  single response 422 with the extracted errors and leaves the persistent state as it
  was: no service-layer call is among its events, whatever \<^verbatim>\<open>create\<close> and \<^verbatim>\<open>get\<close> are.
\<close>

theorem validation_failure_stops_at_handler:
  assumes "validationErrors req \<noteq> []"
  shows "createShortUrl create' extractErrors genericSuccess req db =
           (db, [Send \<lparr>status = 422, data = JObj [],
                        message = JObj [(''errors'', extractErrors (validationErrors req))]\<rparr>])
       \<and> getShortUrl get' extractErrors genericSuccess req db =
           (db, [Send \<lparr>status = 422, data = JObj [],
                        message = JObj [(''errors'', extractErrors (validationErrors req))]\<rparr>])
       \<and> getAllShortUrlsByUser get' extractErrors genericSuccess req db =
           (db, [Send \<lparr>status = 422, data = JObj [],
                        message = JObj [(''errors'', extractErrors (validationErrors req))]\<rparr>])"
  using assms by (simp add: ctl_defs)

theorem validation_failure_stops_at_handler_witness:
  "createShortUrl (create sampleIsValidUrl [''xyz789'']) sampleExtractErrors sampleSuccess
     ((sampleRequest ''/urls/short'' None)\<lparr>validationErrors := sampleInvalid\<rparr>) sampleStore =
     (sampleStore,
      [Send \<lparr>status = 422, data = JObj [],
             message = JObj [(''errors'', JArr sampleInvalid)]\<rparr>])
   \<and> getShortUrl get sampleExtractErrors sampleSuccess
     ((sampleRequest ''/urls/abc123'' None)\<lparr>validationErrors := sampleInvalid\<rparr>) sampleStore =
     (sampleStore,
      [Send \<lparr>status = 422, data = JObj [],
             message = JObj [(''errors'', JArr sampleInvalid)]\<rparr>])"
  using validation_failure_stops_at_handler
    [of "(sampleRequest ''/urls/short'' None)\<lparr>validationErrors := sampleInvalid\<rparr>"
        "create sampleIsValidUrl [''xyz789'']" sampleExtractErrors sampleSuccess sampleStore get]
    validation_failure_stops_at_handler
    [of "(sampleRequest ''/urls/abc123'' None)\<lparr>validationErrors := sampleInvalid\<rparr>"
        "create sampleIsValidUrl [''xyz789'']" sampleExtractErrors sampleSuccess sampleStore get]
  by (simp add: sampleRequest_def sampleInvalid_def sampleExtractErrors_def)

text \<open>
  Every run of a handler ends with a response: the validation failure, the success and
  the caught service error each send one.
\<close>

lemma handlers_always_respond:
  "(\<exists>es r. snd (createShortUrl create' extractErrors genericSuccess req db) = es @ [Send r])
   \<and> (\<exists>es r. snd (getShortUrl get' extractErrors genericSuccess req db) = es @ [Send r])
   \<and> (\<exists>es r. snd (getAllShortUrlsByUser get' extractErrors genericSuccess req db) = es @ [Send r])"
proof (intro conjI)
  show "\<exists>es r. snd (createShortUrl create' extractErrors genericSuccess req db) = es @ [Send r]"
  proof (cases "validationErrors req = []")
    case False
    then show ?thesis by (simp add: ctl_defs)
  next
    case True
    obtain r db' where c: "create' \<lparr>originalUrl = map_of (body req) ''originalUrl'',
        baseURL = origin req, userId = []\<rparr> db = (r, db')"
      by (cases "create' \<lparr>originalUrl = map_of (body req) ''originalUrl'',
        baseURL = origin req, userId = []\<rparr> db")
    show ?thesis using True c by (cases r) (simp_all add: ctl_defs)
  qed
next
  show "\<exists>es r. snd (getShortUrl get' extractErrors genericSuccess req db) = es @ [Send r]"
  proof (cases "validationErrors req = []")
    case False
    then show ?thesis by (simp add: ctl_defs)
  next
    case True
    obtain r db' where c: "get' (map_of (params req) ''urlId'') db = (r, db')"
      by (cases "get' (map_of (params req) ''urlId'') db")
    show ?thesis using True c by (cases r) (simp_all add: ctl_defs)
  qed
next
  show "\<exists>es r. snd (getAllShortUrlsByUser get' extractErrors genericSuccess req db) = es @ [Send r]"
  proof (cases "validationErrors req = []")
    case False
    then show ?thesis by (simp add: ctl_defs)
  next
    case True
    obtain r db' where c: "get' (map_of (params req) ''urlId'') db = (r, db')"
      by (cases "get' (map_of (params req) ''urlId'') db")
    show ?thesis using True c by (cases r) (simp_all add: ctl_defs)
  qed
qed

text \<open>
  C9. \<^verbatim>\<open>getAllShortUrlsByUser\<close> gives the same result as \<^verbatim>\<open>getShortUrl\<close> on every request,
  state and choice of the imported operations. When validation passes and \<^verbatim>\<open>get\<close> returns a
  value for \<^verbatim>\<open>req.params.urlId\<close>, it makes that one \<^verbatim>\<open>get\<close> call and responds 201 with the
  object \<open>{originalUrl}\<close> holding the value: one lookup, not a list of a user's mappings.
\<close>

theorem getAllShortUrlsByUser_is_getShortUrl:
  "getAllShortUrlsByUser get' extractErrors genericSuccess req db =
     getShortUrl get' extractErrors genericSuccess req db
   \<and> (validationErrors req = [] \<and> get' (map_of (params req) ''urlId'') db = (Inr v, db') \<longrightarrow>
        getAllShortUrlsByUser get' extractErrors genericSuccess req db =
          (db', [ServiceGet (map_of (params req) ''urlId''),
                 Send \<lparr>status = 201, data = JObj [(''originalUrl'', v)],
                       message = genericSuccess\<rparr>]))"
  by (simp add: ctl_defs)

theorem getAllShortUrlsByUser_is_getShortUrl_witness:
  "getAllShortUrlsByUser get sampleExtractErrors sampleSuccess
     (sampleRequest ''/urls/abc123'' None) sampleStore =
     (sampleStore,
      [ServiceGet (Some ''abc123''),
       Send \<lparr>status = 201, data = JObj [(''originalUrl'', JStr ''https://example.com/a/b'')],
             message = sampleSuccess\<rparr>])"
  using getAllShortUrlsByUser_is_getShortUrl
    [of get sampleExtractErrors sampleSuccess "sampleRequest ''/urls/abc123'' None" sampleStore
        "JStr ''https://example.com/a/b''" sampleStore]
  by (simp add: ctl_defs sampleRequest_def sampleStore_def get_def)

text \<open>What the service-layer \<open>create\<close> does to the store: it appends at most one mapping,
  owned by the \<open>userId\<close> it was given.\<close>

lemma create_appends:
  "create isValidUrl draws args store = (r, store') \<Longrightarrow>
     store' = store \<or>
     (\<exists>c u. store' = store @ [\<lparr>shortCode = c, storedUrl = u, ownerUserId = Some (userId args)\<rparr>])"
  by (auto simp: create_def split: option.splits json.splits if_splits)

lemma createShortUrl_store:
  "fst (createShortUrl (create isValidUrl draws) extractErrors genericSuccess req store) = store \<or>
   (\<exists>c u. fst (createShortUrl (create isValidUrl draws) extractErrors genericSuccess req store) =
            store @ [\<lparr>shortCode = c, storedUrl = u, ownerUserId = Some []\<rparr>])"
proof (cases "validationErrors req = []")
  case False
  then show ?thesis by (simp add: ctl_defs)
next
  case True
  let ?args = "\<lparr>originalUrl = map_of (body req) ''originalUrl'', baseURL = origin req,
                 userId = []\<rparr>"
  obtain r store' where c: "create isValidUrl draws ?args store = (r, store')"
    by (cases "create isValidUrl draws ?args store")
  have "fst (createShortUrl (create isValidUrl draws) extractErrors genericSuccess req store) = store'"
    using True c by (cases r) (simp_all add: ctl_defs)
  with create_appends [OF c] show ?thesis by simp
qed

text \<open>
  C10. Every \<^verbatim>\<open>create\<close> call that \<^verbatim>\<open>createShortUrl\<close> makes has \<open>userId\<close> the empty string,
  whatever \<^verbatim>\<open>req.user\<close> is, and when validation passes the call is made, with
  \<open>originalUrl\<close> from the body and \<open>baseURL\<close> from the Origin header; \<^verbatim>\<open>req.user\<close> only
  appears in the \<^verbatim>\<open>console.log\<close>. With the service layer of the spec, every mapping that
  the handler persists has the empty string as its owner.
\<close>

theorem createShortUrl_userId_empty:
  "(\<forall>a. ServiceCreate a \<in> set (snd (createShortUrl create' extractErrors genericSuccess req db))
        \<longrightarrow> userId a = [])
   \<and> (validationErrors req = [] \<longrightarrow>
        ServiceCreate \<lparr>originalUrl = map_of (body req) ''originalUrl'', baseURL = origin req,
                       userId = []\<rparr>
          \<in> set (snd (createShortUrl create' extractErrors genericSuccess req db)))
   \<and> (\<forall>m. m \<in> set (fst (createShortUrl (create isValidUrl draws) extractErrors genericSuccess
                         req store))
          \<and> m \<notin> set store \<longrightarrow> ownerUserId m = Some [])"
proof -
  have "\<forall>a. ServiceCreate a \<in> set (snd (createShortUrl create' extractErrors genericSuccess req db))
          \<longrightarrow> userId a = []"
    by (auto simp: ctl_defs Let_def split: prod.splits sum.splits if_splits)
  moreover have "validationErrors req = [] \<longrightarrow>
        ServiceCreate \<lparr>originalUrl = map_of (body req) ''originalUrl'', baseURL = origin req,
                       userId = []\<rparr>
          \<in> set (snd (createShortUrl create' extractErrors genericSuccess req db))"
    by (auto simp: ctl_defs Let_def split: prod.splits sum.splits)
  moreover have "\<forall>m. m \<in> set (fst (createShortUrl (create isValidUrl draws) extractErrors
                                   genericSuccess req store))
          \<and> m \<notin> set store \<longrightarrow> ownerUserId m = Some []"
    using createShortUrl_store [of isValidUrl draws extractErrors genericSuccess req store]
    by auto
  ultimately show ?thesis by blast
qed

theorem createShortUrl_userId_empty_witness:
  "createShortUrl (create sampleIsValidUrl [''abc123'', ''xyz789'']) sampleExtractErrors
     sampleSuccess ((sampleRequest ''/urls/short'' None)\<lparr>user := Some sampleClaims\<rparr>) sampleStore =
     (sampleStore @ [\<lparr>shortCode = ''xyz789'', storedUrl = ''https://example.com/a/b'',
                      ownerUserId = Some ''''\<rparr>],
      [ConsoleLog [Some (JStr ''user''), Some sampleClaims],
       ServiceCreate \<lparr>originalUrl = Some (JStr ''https://example.com/a/b''),
                      baseURL = Some ''https://short.ly'', userId = ''''\<rparr>,
       Send \<lparr>status = 201, data = JObj [(''shortUrl'', JStr ''https://short.ly/xyz789'')],
             message = sampleSuccess\<rparr>])"
  using createShortUrl_userId_empty
    [of "create sampleIsValidUrl [''abc123'', ''xyz789'']" sampleExtractErrors sampleSuccess
        "(sampleRequest ''/urls/short'' None)\<lparr>user := Some sampleClaims\<rparr>" sampleStore
        sampleIsValidUrl "[''abc123'', ''xyz789'']"]
  by (simp add: ctl_defs create_def sampleRequest_def sampleStore_def sampleIsValidUrl_def)

section \<open>Properties of the URL service\<close>

lemma generateCode_fresh:
  "generateCode store draws = Some c \<Longrightarrow> c \<in> set draws \<and> c \<notin> set (map shortCode store)"
  by (induction draws) (auto split: if_splits)

lemma generateCode_finds:
  "\<exists>c \<in> set draws. c \<notin> set (map shortCode store) \<Longrightarrow> \<exists>c. generateCode store draws = Some c"
  by (induction draws) auto

lemma find_snoc:
  "find P (xs @ [x]) = (case find P xs of Some y \<Rightarrow> Some y | None \<Rightarrow> if P x then Some x else None)"
  by (induction xs) auto

lemma find_no_code:
  "c \<notin> set (map shortCode store) \<Longrightarrow> find (\<lambda>m. Some (shortCode m) = Some c) store = None"
  by (induction store) auto

lemma get_after_append:
  assumes "c \<notin> set (map shortCode store)"
  shows "get (Some c) (store @ [\<lparr>shortCode = c, storedUrl = u, ownerUserId = w\<rparr>]) =
           (Inr (JStr u), store @ [\<lparr>shortCode = c, storedUrl = u, ownerUserId = w\<rparr>])"
  using find_no_code [OF assms] by (simp add: get_def find_snoc)

text \<open>The new mapping is the first and only one with its code, so \<open>get\<close> finds it.\<close>

lemma create_then_get:
  assumes "isValidUrl u" and "\<exists>c \<in> set draws. c \<notin> set (map shortCode store)"
  shows "\<exists>c store'.
           create isValidUrl draws \<lparr>originalUrl = Some (JStr u), baseURL = b, userId = uid\<rparr> store =
             (Inr (JObj [(''shortUrl'',
                     JStr ((case b of None \<Rightarrow> ''undefined'' | Some b' \<Rightarrow> b') @ ''/'' @ c))]), store')
         \<and> get (Some c) store' = (Inr (JStr u), store')"
proof -
  from generateCode_finds [OF assms(2)] obtain c where c: "generateCode store draws = Some c"
    by blast
  then have fresh: "c \<notin> set (map shortCode store)"
    using generateCode_fresh by blast
  let ?store' = "store @ [\<lparr>shortCode = c, storedUrl = u, ownerUserId = Some uid\<rparr>]"
  have "create isValidUrl draws \<lparr>originalUrl = Some (JStr u), baseURL = b, userId = uid\<rparr> store =
          (Inr (JObj [(''shortUrl'',
                  JStr ((case b of None \<Rightarrow> ''undefined'' | Some b' \<Rightarrow> b') @ ''/'' @ c))]), ?store')"
    using assms(1) c by (simp add: create_def)
  moreover have "get (Some c) ?store' = (Inr (JStr u), ?store')"
    using fresh by (rule get_after_append)
  ultimately show ?thesis by blast
qed

text \<open>
  C2. For a URL \<open>u\<close> that parses as an absolute URL, and a generator that draws at least
  one code that no mapping holds yet, \<open>create\<close> succeeds: it returns the short URL built
  from a code \<open>c\<close>, and in the store it leaves, \<open>get\<close> of \<open>c\<close> returns exactly \<open>u\<close>.
\<close>

theorem create_get_round_trip:
  assumes "isValidUrl u" and "\<exists>c \<in> set draws. c \<notin> set (map shortCode store)"
  shows "\<exists>c store'.
           create isValidUrl draws \<lparr>originalUrl = Some (JStr u), baseURL = b, userId = uid\<rparr> store =
             (Inr (JObj [(''shortUrl'',
                     JStr ((case b of None \<Rightarrow> ''undefined'' | Some b' \<Rightarrow> b') @ ''/'' @ c))]), store')
         \<and> get (Some c) store' = (Inr (JStr u), store')"
  using assms by (rule create_then_get)

theorem create_get_round_trip_witness:
  "sampleIsValidUrl ''https://example.com/a/b''
   \<and> ''xyz789'' \<notin> set (map shortCode sampleStore)
   \<and> create sampleIsValidUrl [''abc123'', ''xyz789'']
         \<lparr>originalUrl = Some (JStr ''https://example.com/a/b''),
          baseURL = Some ''https://short.ly'', userId = ''''\<rparr> sampleStore =
         (Inr (JObj [(''shortUrl'', JStr ''https://short.ly/xyz789'')]),
          sampleStore @ [\<lparr>shortCode = ''xyz789'', storedUrl = ''https://example.com/a/b'',
                           ownerUserId = Some ''''\<rparr>])
   \<and> get (Some ''xyz789'')
         (sampleStore @ [\<lparr>shortCode = ''xyz789'', storedUrl = ''https://example.com/a/b'',
                          ownerUserId = Some ''''\<rparr>]) =
         (Inr (JStr ''https://example.com/a/b''),
          sampleStore @ [\<lparr>shortCode = ''xyz789'', storedUrl = ''https://example.com/a/b'',
                           ownerUserId = Some ''''\<rparr>])"
proof -
  have v: "sampleIsValidUrl ''https://example.com/a/b''"
    by (simp add: sampleIsValidUrl_def)
  have f: "''xyz789'' \<notin> set (map shortCode sampleStore)"
    by (simp add: sampleStore_def)
  then have d: "\<exists>c \<in> set [''abc123'', ''xyz789'']. c \<notin> set (map shortCode sampleStore)"
    by simp
  from create_get_round_trip
    [of sampleIsValidUrl "''https://example.com/a/b''" "[''abc123'', ''xyz789'']" sampleStore
        "Some ''https://short.ly''" "''''", OF v d] v f
  show ?thesis by (auto simp: create_def get_def sampleStore_def)
qed

text \<open>The same round trip through the two handlers that call \<open>create\<close> and \<open>get\<close>.\<close>

lemma createShortUrl_getShortUrl_round_trip:
  assumes "validationErrors req = []" and "map_of (body req) ''originalUrl'' = Some (JStr u)"
    and "isValidUrl u" and "\<exists>c \<in> set draws. c \<notin> set (map shortCode store)"
  shows "\<exists>c store'.
           createShortUrl (create isValidUrl draws) extractErrors genericSuccess req store =
             (store',
              [ConsoleLog [Some (JStr ''user''), user req],
               ServiceCreate \<lparr>originalUrl = Some (JStr u), baseURL = origin req, userId = []\<rparr>,
               Send \<lparr>status = 201,
                     data = JObj [(''shortUrl'',
                       JStr ((case origin req of None \<Rightarrow> ''undefined'' | Some b' \<Rightarrow> b')
                             @ ''/'' @ c))],
                     message = genericSuccess\<rparr>])
         \<and> (\<forall>req'. validationErrors req' = [] \<and> map_of (params req') ''urlId'' = Some c \<longrightarrow>
                getShortUrl get extractErrors genericSuccess req' store' =
                  (store',
                   [ServiceGet (Some c),
                    Send \<lparr>status = 201, data = JObj [(''originalUrl'', JStr u)],
                          message = genericSuccess\<rparr>]))"
proof -
  from create_then_get [of isValidUrl u draws store "origin req" "[]", OF assms(3,4)]
  obtain c store' where
    c: "create isValidUrl draws \<lparr>originalUrl = Some (JStr u), baseURL = origin req, userId = []\<rparr>
          store =
        (Inr (JObj [(''shortUrl'',
                JStr ((case origin req of None \<Rightarrow> ''undefined'' | Some b' \<Rightarrow> b') @ ''/'' @ c))]),
         store')"
    and g: "get (Some c) store' = (Inr (JStr u), store')"
    by blast
  have "createShortUrl (create isValidUrl draws) extractErrors genericSuccess req store =
          (store',
           [ConsoleLog [Some (JStr ''user''), user req],
            ServiceCreate \<lparr>originalUrl = Some (JStr u), baseURL = origin req, userId = []\<rparr>,
            Send \<lparr>status = 201,
                  data = JObj [(''shortUrl'',
                    JStr ((case origin req of None \<Rightarrow> ''undefined'' | Some b' \<Rightarrow> b')
                          @ ''/'' @ c))],
                  message = genericSuccess\<rparr>])"
    using assms(1,2) c by (simp add: createShortUrl_def sendResponse_def)
  moreover have "\<forall>req'. validationErrors req' = [] \<and> map_of (params req') ''urlId'' = Some c \<longrightarrow>
      getShortUrl get extractErrors genericSuccess req' store' =
        (store',
         [ServiceGet (Some c),
          Send \<lparr>status = 201, data = JObj [(''originalUrl'', JStr u)],
                message = genericSuccess\<rparr>])"
    using g by (simp add: getShortUrl_def sendResponse_def)
  ultimately show ?thesis by blast
qed

text \<open>The mappings are never changed or removed by \<open>create\<close>, so a code that resolves keeps
  resolving to the same URL after later creations; a code that no mapping holds is not found.\<close>

lemma create_store_grows:
  "create isValidUrl draws args store = (r, store') \<Longrightarrow> \<exists>ms. store' = store @ ms"
  using create_appends [of isValidUrl draws args store r store'] by auto

lemma find_append_Some:
  "find P xs = Some y \<Longrightarrow> find P (xs @ ys) = Some y"
  by (induction xs) (auto split: if_splits)

lemma get_stable_under_create:
  assumes "get (Some c) store = (Inr v, store)"
    and "create isValidUrl draws args store = (r, store')"
  shows "get (Some c) store' = (Inr v, store')"
proof -
  from create_store_grows [OF assms(2)] obtain ms where ms: "store' = store @ ms" by blast
  from assms(1) obtain m where m: "find (\<lambda>m. Some (shortCode m) = Some c) store = Some m"
    and v: "v = JStr (storedUrl m)"
    by (auto simp: get_def split: option.splits)
  from find_append_Some [OF m] show ?thesis
    unfolding ms get_def using v by simp
qed

lemma get_unknown_code:
  "c \<notin> set (map shortCode store) \<Longrightarrow>
     get (Some c) store = (Inl \<lparr>kind = NotFound, reason = ''Url not found''\<rparr>, store)"
  using find_no_code [of c store] by (simp add: get_def)

end
